theory Spec2Isabelle
  imports Main "HOL-Library.Word"
begin

section \<open>Byte strings and canonical values\<close>

text \<open>
  A Node \<open>Buffer\<close> is a list of bytes. Reading \<open>buf[0]\<close> yields the first byte as a
  number, or \<open>undefined\<close> when the buffer is empty; \<open>None\<close> stands for \<open>undefined\<close>.
\<close>

type_synonym buffer = "8 word list"

definition BUFFER_EMPTY :: buffer where
  "BUFFER_EMPTY = []"

definition BUFFER_32_ZERO :: buffer where
  "BUFFER_32_ZERO = replicate 32 0"

definition first_byte :: "buffer \<Rightarrow> int option" where
  "first_byte buf = (case buf of [] \<Rightarrow> None | b # _ \<Rightarrow> Some (uint b))"

text \<open>\<open>xs.slice(start, end)\<close> for indices that are not negative.\<close>

definition slice_list :: "nat \<Rightarrow> nat \<Rightarrow> 'a list \<Rightarrow> 'a list" where
  "slice_list start end xs = take (end - start) (drop start xs)"

subsection \<open>Quantity, Data, Address and big numbers\<close>

text \<open>
  Modelled from the spec: the value types \<open>Quantity\<close>, \<open>Data\<close> and \<open>Address\<close> of
  \<open>@ganache/utils\<close> and \<open>@ganache/ethereum-address\<close> are not among the sources. The
  spec describes a Quantity as a canonical non-negative integer whose byte form is the
  minimal big-endian representation: no leading zero byte, and zero is the empty byte
  string. A Quantity is therefore a natural number, \<open>toBuffer\<close> writes it big-endian
  without leading zeros, and \<open>Quantity.from\<close> of a buffer reads the buffer big-endian.
  \<open>Data\<close> is an opaque byte string: \<open>Data.from(b).toBuffer()\<close> is \<open>b\<close>.
\<close>

type_synonym Quantity = nat

type_synonym Data = buffer

fun toBufferBE :: "nat \<Rightarrow> buffer" where
  "toBufferBE n = (if n = 0 then [] else toBufferBE (n div 256) @ [word_of_nat (n mod 256)])"

declare toBufferBE.simps [simp del]

definition fromBufferBE :: "buffer \<Rightarrow> nat" where
  "fromBufferBE buf = foldl (\<lambda>acc b. acc * 256 + unat b) 0 buf"

definition Quantity_from_number :: "nat \<Rightarrow> Quantity" where
  "Quantity_from_number n = n"

definition Quantity_from_buffer :: "buffer \<Rightarrow> Quantity" where
  "Quantity_from_buffer buf = fromBufferBE buf"

definition Quantity_toBuffer :: "Quantity \<Rightarrow> buffer" where
  "Quantity_toBuffer q = toBufferBE q"

definition Quantity_toBigInt :: "Quantity \<Rightarrow> nat" where
  "Quantity_toBigInt q = q"

definition Data_from :: "buffer \<Rightarrow> Data" where
  "Data_from buf = buf"

definition Data_toBuffer :: "Data \<Rightarrow> buffer" where
  "Data_toBuffer d = d"

text \<open>
  \<open>new BN(buffer)\<close> of \<open>ethereumjs-util\<close> reads a buffer as an unbounded big-endian
  number; a BN is a natural number here.
\<close>

definition BN :: "buffer \<Rightarrow> nat" where
  "BN buf = fromBufferBE buf"

text \<open>The recipient is either the constant \<open>RPCQUANTITY_EMPTY\<close> or an address.\<close>

datatype recipient = RPCQUANTITY_EMPTY | Address buffer

datatype error =
    AlreadySignedError
  | UnsupportedTransactionType "int option"
  | InvalidSignatureError
  | MalformedAddressError
  | TypeError
  | DecodeError
  | RangeError

text \<open>
  Modelled from the spec: \<open>Address.from\<close> of \<open>@ganache/ethereum-address\<close> is not among
  the sources; the spec has MalformedAddressError raised when \<open>to\<close> is neither empty nor
  exactly 20 bytes.
\<close>

definition Address_from :: "buffer \<Rightarrow> error + recipient" where
  "Address_from buf = (if length buf = 20 then Inr (Address buf) else Inl MalformedAddressError)"

fun recipient_toBuffer :: "recipient \<Rightarrow> buffer" where
  "recipient_toBuffer RPCQUANTITY_EMPTY = []"
| "recipient_toBuffer (Address buf) = buf"

subsection \<open>RLP\<close>

text \<open>
  Modelled from the spec: the RLP codec \<open>@ganache/rlp\<close> (\<open>encode\<close>, \<open>encodeLength\<close>,
  \<open>encodeRange\<close>, \<open>digest\<close>) is not among the sources. The spec takes it as a correct
  RLP codec that can encode a range of an array and join previously encoded segments
  into one list. \<open>encodeLength\<close> is the RLP length prefix, \<open>encode\<close> the encoding of one
  byte string, \<open>encodeRange items start length\<close> encodes the \<open>length\<close> items from index
  \<open>start\<close> and reports the total size, and \<open>digest ranges length\<close> writes the list prefix
  for a payload of \<open>length\<close> bytes followed by every encoded entry of every range.
\<close>

definition encodeLength :: "nat \<Rightarrow> nat \<Rightarrow> buffer" where
  "encodeLength len offset =
     (if len < 56 then [word_of_nat (len + offset)]
      else (let hexLength = toBufferBE len
            in word_of_nat (offset + 55 + length hexLength) # hexLength))"

definition encode :: "buffer \<Rightarrow> buffer" where
  "encode input =
     (if length input = 1 \<and> hd input < 0x80 then input
      else encodeLength (length input) 128 @ input)"

record EncodedPart =
  enc_length :: nat
  enc_output :: "buffer list"

definition encodeRange :: "buffer list \<Rightarrow> nat \<Rightarrow> nat \<Rightarrow> EncodedPart" where
  "encodeRange items start len =
     (let out = map encode (slice_list start (start + len) items)
      in \<lparr>enc_length = sum_list (map length out), enc_output = out\<rparr>)"

definition digest :: "buffer list list \<Rightarrow> nat \<Rightarrow> buffer" where
  "digest ranges len = encodeLength len 192 @ concat (concat ranges)"

text \<open>
  The RLP encoding of a list of byte strings, as the RLP format defines it: the list
  prefix for the size of the payload, then the encoded items. This is the reference the
  serialization claims are stated against.
\<close>

definition rlp_encode_list :: "buffer list \<Rightarrow> buffer" where
  "rlp_encode_list items =
     (let payload = concat (map encode items)
      in encodeLength (length payload) 192 @ payload)"

section \<open>Transaction factory: classification\<close>

datatype variant = Legacy | AccessList

definition UNTYPED_TX_START_BYTE :: int where
  "UNTYPED_TX_START_BYTE = 0xc0"

definition LEGACY_TX_TYPE_ID :: int where
  "LEGACY_TX_TYPE_ID = 0x0"

definition ACCESS_LIST_TX_TYPE_ID :: int where
  "ACCESS_LIST_TX_TYPE_ID = 0x1"

text \<open>
  \<open>TransactionFactory.typeOf\<close>. The argument is a number or \<open>undefined\<close>; in JavaScript
  \<open>undefined >= 0xc0\<close> is false, so the first disjunct needs a number. Falling off the
  end of the function returns \<open>undefined\<close>: no variant, here \<open>None\<close>.
\<close>

definition typeOf :: "int option \<Rightarrow> variant option" where
  "typeOf type =
     (if (case type of None \<Rightarrow> False | Some n \<Rightarrow> n \<ge> UNTYPED_TX_START_BYTE)
         \<or> type = Some LEGACY_TX_TYPE_ID
         \<or> type = None
      then Some Legacy
      else if type = Some ACCESS_LIST_TX_TYPE_ID then Some AccessList
      else None)"

section \<open>Legacy transaction\<close>

text \<open>
  The chain context \<open>Common\<close> of \<open>@ethereumjs/common\<close> is used for \<open>chainId()\<close> only.
\<close>

record Common =
  chainId :: nat

text \<open>
  The fields of a \<open>LegacyTransaction\<close> instance, its own and the inherited ones the
  source reads or writes. The fields \<open>type\<close>, \<open>to\<close>, \<open>value\<close>, \<open>data\<close>, \<open>from\<close>, \<open>v\<close>,
  \<open>r\<close> and \<open>s\<close> carry the prefix \<open>tx_\<close>. A field that may be \<open>null\<close> or \<open>undefined\<close>
  is an option.
\<close>

text \<open>
  Modelled from the spec: the base class \<open>RuntimeTransaction\<close> that declares the
  inherited fields is not among the sources; the spec has the signature fields and the
  derived fields (sender, serialized bytes, hash, the two cached encoded segments, the
  raw array) absent until they are computed, and the other fields always present.
\<close>

record LegacyTransaction =
  tx_type :: Quantity
  nonce :: Quantity
  gasPrice :: Quantity
  gas :: Quantity
  tx_to :: recipient
  tx_value :: Quantity
  tx_data :: Data
  tx_v :: "Quantity option"
  tx_r :: "Quantity option"
  tx_s :: "Quantity option"
  tx_from :: "buffer option"
  raw :: "buffer list option"
  serialized :: "buffer option"
  hash :: "Data option"
  encodedData :: "EncodedPart option"
  encodedSignature :: "EncodedPart option"
  common :: Common

text \<open>
  The argument of the constructor: an array (a database payload) or an RPC object. Of
  the RPC object the source reads \<open>gasPrice\<close> only; the hexadecimal string is
  represented by the quantity it denotes.
\<close>

record TypedRpcTransaction =
  rpc_gasPrice :: Quantity

datatype tx_input = DatabasePayload "buffer list" | RpcTransaction TypedRpcTransaction

record ECDSASignature =
  sig_v :: nat
  sig_r :: buffer
  sig_s :: buffer

record Intrinsics =
  i_from :: buffer
  i_serialized :: buffer
  i_hash :: Data
  i_encodedData :: EncodedPart
  i_encodedSignature :: EncodedPart

text \<open>
  The collaborators the source calls and that are not part of it, taken as parameters:
  \<^item> \<open>keccak\<close>, the keccak256 hash of \<open>@ganache/utils\<close>;
  \<^item> \<open>ecsign\<close> of \<open>ethereumjs-util\<close>: message hash, private key and chain id to (v, r, s);
  \<^item> \<open>recoverSender\<close>, the sender recovery inside \<open>computeInstrinsicsLegacyTx\<close>, from
    v, the raw array and the chain id; \<open>None\<close> when recovery yields no valid point;
  \<^item> \<open>decode\<close> of \<open>@ganache/rlp\<close>, which may raise;
  \<^item> \<open>super_ctor\<close>, the state in which the constructor of \<open>RuntimeTransaction\<close> leaves
    the instance;
  \<^item> \<open>EIP2930_fromTxData\<close>, the constructor of the access-list variant;
  \<^item> \<open>calculateIntrinsicGas\<close>, inherited from the base class;
  \<^item> \<open>Quantity_from_bigint\<close>, the conversion \<open>Quantity.from(c)\<close> of a BigInt result
    into a Quantity, which may raise when \<open>c\<close> is outside the range it represents.
\<close>

record 'a ext =
  keccak :: "buffer \<Rightarrow> buffer"
  ecsign :: "buffer \<Rightarrow> buffer \<Rightarrow> nat \<Rightarrow> ECDSASignature"
  recoverSender :: "Quantity \<Rightarrow> buffer list \<Rightarrow> nat \<Rightarrow> buffer option"
  decode :: "buffer \<Rightarrow> error + buffer list"
  super_ctor :: "tx_input \<Rightarrow> Common \<Rightarrow> LegacyTransaction"
  EIP2930_fromTxData :: "buffer list \<Rightarrow> Common \<Rightarrow> error + 'a"
  calculateIntrinsicGas :: "LegacyTransaction \<Rightarrow> nat"
  Quantity_from_bigint :: "nat \<Rightarrow> error + Quantity"

text \<open>
  Modelled from the spec: \<open>computeInstrinsicsLegacyTx\<close> of \<open>./signing\<close> is not among the
  sources. By the spec it recovers the sender and fails if recovery yields no valid
  point, produces the serialized form, which for the legacy variant is the RLP of the
  full field list (the nine fields after the type slot), and the keccak256 hash of that
  form, and caches the encoding of the unsigned fields and of the signature separately.
\<close>

definition computeInstrinsicsLegacyTx ::
  "'a ext \<Rightarrow> Quantity \<Rightarrow> buffer list \<Rightarrow> nat \<Rightarrow> error + Intrinsics" where
  "computeInstrinsicsLegacyTx ext v raw_fields cid =
     (case recoverSender ext v raw_fields cid of
        None \<Rightarrow> Inl InvalidSignatureError
      | Some sender \<Rightarrow>
          (let ser = rlp_encode_list (slice_list 1 10 raw_fields)
           in Inr \<lparr>i_from = sender,
                   i_serialized = ser,
                   i_hash = Data_from (keccak ext ser),
                   i_encodedData = encodeRange raw_fields 1 6,
                   i_encodedSignature = encodeRange raw_fields 7 3\<rparr>))"

text \<open>\<open>LegacyTransaction.computeIntrinsics\<close>.\<close>

definition computeIntrinsics ::
  "'a ext \<Rightarrow> Quantity \<Rightarrow> buffer list \<Rightarrow> nat \<Rightarrow> error + Intrinsics" where
  "computeIntrinsics ext v raw_fields cid = computeInstrinsicsLegacyTx ext v raw_fields cid"

text \<open>
  The constructor. \<open>this0\<close> is the instance after \<open>super(data, common)\<close> and the field
  initializer \<open>type = Quantity.from("0x0")\<close>. The array branch reads the slots 0 to 8 of
  the payload, whose type is a tuple of nine buffers; a payload with fewer slots is
  outside that type and the model stops there with \<open>TypeError\<close> instead of reading slots
  that do not exist.
\<close>

definition LegacyTransaction_ctor ::
  "'a ext \<Rightarrow> tx_input \<Rightarrow> Common \<Rightarrow> error + LegacyTransaction" where
  "LegacyTransaction_ctor ext input cmn =
     (let this0 = (super_ctor ext input cmn)\<lparr>tx_type := Quantity_from_number 0, common := cmn\<rparr>
      in case input of
           DatabasePayload payload \<Rightarrow>
             if length payload < 9 then Inl TypeError
             else
               (case (if length (payload ! 3) = 0 then Inr RPCQUANTITY_EMPTY
                      else Address_from (payload ! 3)) of
                  Inl e \<Rightarrow> Inl e
                | Inr to_field \<Rightarrow>
                    (let this1 = this0\<lparr>
                           nonce := Quantity_from_buffer (payload ! 0),
                           gasPrice := Quantity_from_buffer (payload ! 1),
                           gas := Quantity_from_buffer (payload ! 2),
                           tx_to := to_field,
                           tx_value := Quantity_from_buffer (payload ! 4),
                           tx_data := Data_from (payload ! 5),
                           tx_v := Some (Quantity_from_buffer (payload ! 6)),
                           tx_r := Some (Quantity_from_buffer (payload ! 7)),
                           tx_s := Some (Quantity_from_buffer (payload ! 8)),
                           raw := Some (Quantity_toBuffer (tx_type this0) # payload)\<rparr>
                     in case computeIntrinsics ext (Quantity_from_buffer (payload ! 6))
                               (Quantity_toBuffer (tx_type this0) # payload) (chainId cmn) of
                          Inl e \<Rightarrow> Inl e
                        | Inr intr \<Rightarrow>
                            Inr (this1\<lparr>
                              tx_from := Some (i_from intr),
                              serialized := Some (i_serialized intr),
                              hash := Some (i_hash intr),
                              encodedData := Some (i_encodedData intr),
                              encodedSignature := Some (i_encodedSignature intr)\<rparr>)))
         | RpcTransaction rpc \<Rightarrow>
             Inr (this0\<lparr>gasPrice := rpc_gasPrice rpc\<rparr>))"

definition LegacyTransaction_fromTxData ::
  "'a ext \<Rightarrow> tx_input \<Rightarrow> Common \<Rightarrow> error + LegacyTransaction" where
  "LegacyTransaction_fromTxData ext input cmn = LegacyTransaction_ctor ext input cmn"

text \<open>\<open>toEthRawTransaction\<close>: the ten slots of the raw array.\<close>

definition toEthRawTransaction ::
  "LegacyTransaction \<Rightarrow> buffer \<Rightarrow> buffer \<Rightarrow> buffer \<Rightarrow> buffer list" where
  "toEthRawTransaction this v_buf r_buf s_buf =
     [Quantity_toBuffer (tx_type this),
      Quantity_toBuffer (nonce this),
      Quantity_toBuffer (gasPrice this),
      Quantity_toBuffer (gas this),
      recipient_toBuffer (tx_to this),
      Quantity_toBuffer (tx_value this),
      Data_toBuffer (tx_data this),
      v_buf,
      r_buf,
      s_buf]"

text \<open>
  \<open>signAndHash\<close>. The instance is mutated in place in the source; the model returns the
  instance after the call, or the error raised. \<open>this.v != null\<close> holds for every value
  but \<open>null\<close> and \<open>undefined\<close>.
\<close>

definition signAndHash ::
  "'a ext \<Rightarrow> buffer \<Rightarrow> LegacyTransaction \<Rightarrow> error + LegacyTransaction" where
  "signAndHash ext privateKey this =
     (if tx_v this \<noteq> None then Inl AlreadySignedError
      else
        (let cid = chainId (common this);
             raw0 = toEthRawTransaction this
                      (Quantity_toBuffer (Quantity_from_number cid)) BUFFER_EMPTY BUFFER_EMPTY;
             data = encodeRange raw0 1 6;
             dataLength = enc_length data;
             ending = encodeRange raw0 7 3;
             msgHash = keccak ext
                         (digest [enc_output data, enc_output ending]
                            (dataLength + enc_length ending));
             sig = ecsign ext msgHash privateKey cid;
             v' = Quantity_from_number (sig_v sig);
             r' = Quantity_from_buffer (sig_r sig);
             s' = Quantity_from_buffer (sig_s sig);
             raw1 = raw0[7 := Quantity_toBuffer v',
                         8 := Quantity_toBuffer r',
                         9 := Quantity_toBuffer s'];
             encSig = encodeRange raw1 7 3;
             ser = digest [enc_output data, enc_output encSig]
                     (dataLength + enc_length encSig)
         in Inr (this\<lparr>
              tx_v := Some v',
              tx_r := Some r',
              tx_s := Some s',
              raw := Some raw1,
              serialized := Some ser,
              hash := Some (Data_from (keccak ext ser)),
              encodedData := Some data,
              encodedSignature := Some encSig\<rparr>)))"

text \<open>
  \<open>toVmTransaction\<close>: the view handed to the execution engine. Its members that are
  functions without arguments are represented by the value they return. Reading
  \<open>this.from.toBuffer()\<close> on an instance without a sender raises a \<open>TypeError\<close>.
\<close>

record 'c VmTransaction =
  vm_hash :: buffer
  vm_nonce :: nat
  vm_gasPrice :: nat
  gasLimit :: nat
  vm_to :: "buffer option"
  vm_value :: nat
  vm_data :: buffer
  getSenderAddress :: buffer
  getBaseFee :: nat
  getUpfrontCost :: "error + nat"
  supports :: "'c \<Rightarrow> bool"

text \<open>
  The \<open>try\<close> block of \<open>getUpfrontCost\<close>. The product and the sum are taken over
  BigInts, which are unbounded, so \<open>c\<close> is the exact value. The conversion of \<open>c\<close> into
  a Quantity is the step that can raise; its bytes are then read as a BN.
\<close>

definition getUpfrontCost_try :: "'a ext \<Rightarrow> LegacyTransaction \<Rightarrow> error + nat" where
  "getUpfrontCost_try ext this =
     (let c = Quantity_toBigInt (gas this) * Quantity_toBigInt (gasPrice this)
              + Quantity_toBigInt (tx_value this)
      in case Quantity_from_bigint ext c of
           Inl e \<Rightarrow> Inl e
         | Inr q \<Rightarrow> Inr (BN (Quantity_toBuffer q)))"

text \<open>\<open>try { ... } catch (e) { throw e; }\<close>: what the block raises is raised again, unchanged.\<close>

definition catch_rethrow :: "error + 'b \<Rightarrow> error + 'b" where
  "catch_rethrow body = (case body of Inl e \<Rightarrow> Inl e | Inr result \<Rightarrow> Inr result)"

definition toVmTransaction :: "'a ext \<Rightarrow> LegacyTransaction \<Rightarrow> error + 'c VmTransaction" where
  "toVmTransaction ext this =
     (case tx_from this of
        None \<Rightarrow> Inl TypeError
      | Some sender \<Rightarrow>
          (let to_buf = recipient_toBuffer (tx_to this);
               data = Data_toBuffer (tx_data this)
           in Inr \<lparr>
                vm_hash = BUFFER_32_ZERO,
                vm_nonce = BN (Quantity_toBuffer (nonce this)),
                vm_gasPrice = BN (Quantity_toBuffer (gasPrice this)),
                gasLimit = BN (Quantity_toBuffer (gas this)),
                vm_to = (if length to_buf = 0 then None else Some to_buf),
                vm_value = BN (Quantity_toBuffer (tx_value this)),
                vm_data = data,
                getSenderAddress = sender,
                getBaseFee =
                  BN (Quantity_toBuffer (Quantity_from_number (calculateIntrinsicGas ext this))),
                getUpfrontCost = catch_rethrow (getUpfrontCost_try ext this),
                supports = (\<lambda>capability. False)\<rparr>))"

section \<open>Transaction factory: construction\<close>

datatype 'a transaction = LegacyTx LegacyTransaction | AccessListTx 'a

text \<open>
  \<open>fromDatabaseTx\<close>. A database record is an array whose first element is the type
  marker; \<open>txData[0][0]\<close> on an array without elements raises a \<open>TypeError\<close>. The elements
  of a record are byte strings here; the nested access list of an EIP-2930 record is
  left to the constructor of that variant.
\<close>

definition fromDatabaseTx :: "'a ext \<Rightarrow> buffer list \<Rightarrow> Common \<Rightarrow> error + 'a transaction" where
  "fromDatabaseTx ext txData cmn =
     (case txData of
        [] \<Rightarrow> Inl TypeError
      | t0 # _ \<Rightarrow>
          (let type = first_byte t0;
               data = slice_list 1 (length txData) txData;
               txType = typeOf type
           in if txType = Some Legacy then
                map_sum id LegacyTx (LegacyTransaction_fromTxData ext (DatabasePayload data) cmn)
              else if txType = Some AccessList then
                map_sum id AccessListTx (EIP2930_fromTxData ext data cmn)
              else Inl (UnsupportedTransactionType type)))"

text \<open>
  \<open>fromString\<close>. The hexadecimal text \<open>txData\<close> is represented by the bytes it denotes,
  the value of \<open>Data.from(txData).toBuffer()\<close>. An error raised by \<open>decode\<close> propagates.
\<close>

definition fromString :: "'a ext \<Rightarrow> buffer \<Rightarrow> Common \<Rightarrow> error + 'a transaction" where
  "fromString ext txData cmn =
     (let data = txData;
          type = first_byte data;
          txType = typeOf type
      in if txType = Some Legacy then
           (let data' = (if type = None then slice_list 1 (length data) data else data)
            in case decode ext data' of
                 Inl e \<Rightarrow> Inl e
               | Inr rawp \<Rightarrow>
                   map_sum id LegacyTx
                     (LegacyTransaction_fromTxData ext (DatabasePayload rawp) cmn))
         else
           (let data' = slice_list 1 (length data) data
            in if txType = Some AccessList then
                 (case decode ext data' of
                    Inl e \<Rightarrow> Inl e
                  | Inr rawp \<Rightarrow> map_sum id AccessListTx (EIP2930_fromTxData ext rawp cmn))
               else Inl (UnsupportedTransactionType type)))"

section \<open>Sample instances\<close>

text \<open>
  Concrete collaborators, an unsigned instance on chain 1 and a nine-field payload, used
  to instantiate the theorems below.
\<close>

definition example_ext :: "unit ext" where
  "example_ext = \<lparr>
     keccak = (\<lambda>buf. take 32 (buf @ replicate 32 0)),
     ecsign = (\<lambda>msgHash privateKey cid.
                 \<lparr>sig_v = 35 + 2 * cid, sig_r = take 1 msgHash, sig_s = privateKey\<rparr>),
     recoverSender = (\<lambda>v raw_fields cid. if v = 0 then None else Some (replicate 20 0x22)),
     decode = (\<lambda>buf. Inl DecodeError),
     super_ctor = (\<lambda>input cmn. \<lparr>tx_type = 0, nonce = 0, gasPrice = 0, gas = 0,
        tx_to = RPCQUANTITY_EMPTY, tx_value = 0, tx_data = [], tx_v = None, tx_r = None,
        tx_s = None, tx_from = None, raw = None, serialized = None, hash = None,
        encodedData = None, encodedSignature = None, common = cmn\<rparr>),
     EIP2930_fromTxData = (\<lambda>fields cmn. Inr ()),
     calculateIntrinsicGas = (\<lambda>this. 21000),
     Quantity_from_bigint = (\<lambda>c. if c < 2 ^ 256 then Inr c else Inl RangeError)\<rparr>"

definition example_unsigned :: LegacyTransaction where
  "example_unsigned = \<lparr>tx_type = 0, nonce = 0, gasPrice = 1, gas = 21000,
     tx_to = Address (replicate 20 0x11), tx_value = 0, tx_data = [],
     tx_v = None, tx_r = None, tx_s = None, tx_from = Some (replicate 20 0x22),
     raw = None, serialized = None, hash = None, encodedData = None,
     encodedSignature = None, common = \<lparr>chainId = 1\<rparr>\<rparr>"

definition example_payload :: "buffer list" where
  "example_payload = [[], [1], [0x52, 0x08], replicate 20 0x11, [], [], [0x25], [1], [2]]"

section \<open>Auxiliary facts\<close>

subsection \<open>Big-endian bytes\<close>


lemma toBufferBE_0: "toBufferBE 0 = []"
  by (simp add: toBufferBE.simps)


subsection \<open>Joining encoded ranges\<close>

lemma length_concat_sum: "length (concat xss) = sum_list (map length xss)"
  by (induction xss) auto

text \<open>
  Two encoded ranges joined by \<open>digest\<close>, with the sum of their sizes as the length,
  are the RLP list of the items of the first range followed by those of the second.
\<close>

lemma digest_encodeRange:
  "digest [enc_output (encodeRange xs a n), enc_output (encodeRange ys b m)]
     (enc_length (encodeRange xs a n) + enc_length (encodeRange ys b m))
   = rlp_encode_list (slice_list a (a + n) xs @ slice_list b (b + m) ys)"
  by (simp add: digest_def encodeRange_def rlp_encode_list_def Let_def length_concat_sum)

lemma slice_ten:
  "slice_list 1 (1 + 6) [x0, x1, x2, x3, x4, x5, x6, x7, x8, x9] = [x1, x2, x3, x4, x5, x6]"
  "slice_list 7 (7 + 3) [x0, x1, x2, x3, x4, x5, x6, x7, x8, x9] = [x7, x8, x9]"
  by (simp_all add: slice_list_def)

text \<open>
  The RLP list of the slots 1 to 9 of a raw array, which is how the spec describes the
  serialized form, is what \<open>signAndHash\<close> assembles from the two encoded ranges.
\<close>

lemma rlp_encode_list_as_digest:
  "rlp_encode_list (slice_list 1 10 raw_fields) =
     digest [enc_output (encodeRange raw_fields 1 6), enc_output (encodeRange raw_fields 7 3)]
       (enc_length (encodeRange raw_fields 1 6) + enc_length (encodeRange raw_fields 7 3))"
proof -
  have "take 9 (drop 1 raw_fields) = take 6 (drop 1 raw_fields) @ take 3 (drop 6 (drop 1 raw_fields))"
    using take_add [of 6 3 "drop 1 raw_fields"] by simp
  then have "slice_list 1 10 raw_fields
             = slice_list 1 (1 + 6) raw_fields @ slice_list 7 (7 + 3) raw_fields"
    by (simp add: slice_list_def)
  then show ?thesis
    by (simp only: digest_encodeRange)
qed

lemma slice_tail: "slice_list 1 (length (x # xs)) (x # xs) = xs"
  by (simp add: slice_list_def)

subsection \<open>What signAndHash computes on an unsigned instance\<close>

lemma signAndHash_unsigned:
  assumes "tx_v this = None"
  shows "signAndHash ext privateKey this =
    (let cid = chainId (common this);
         fields = [Quantity_toBuffer (nonce this), Quantity_toBuffer (gasPrice this),
                   Quantity_toBuffer (gas this), recipient_toBuffer (tx_to this),
                   Quantity_toBuffer (tx_value this), Data_toBuffer (tx_data this)];
         sig = ecsign ext
                 (keccak ext (rlp_encode_list
                    (fields @ [Quantity_toBuffer (Quantity_from_number cid),
                               BUFFER_EMPTY, BUFFER_EMPTY])))
                 privateKey cid;
         v' = Quantity_from_number (sig_v sig);
         r' = Quantity_from_buffer (sig_r sig);
         s' = Quantity_from_buffer (sig_s sig);
         sigfields = [Quantity_toBuffer v', Quantity_toBuffer r', Quantity_toBuffer s'];
         ser = rlp_encode_list (fields @ sigfields)
     in Inr (this\<lparr>
          tx_v := Some v', tx_r := Some r', tx_s := Some s',
          raw := Some (Quantity_toBuffer (tx_type this) # fields @ sigfields),
          serialized := Some ser,
          hash := Some (Data_from (keccak ext ser)),
          encodedData := Some (encodeRange (Quantity_toBuffer (tx_type this) # fields) 1 6),
          encodedSignature := Some (encodeRange sigfields 0 3)\<rparr>))"
  using assms
  apply (simp add: signAndHash_def Let_def toEthRawTransaction_def digest_encodeRange slice_ten)
  apply (simp add: encodeRange_def slice_list_def Let_def)
  done

subsection \<open>What the constructor builds from a nine-field payload\<close>

lemma LegacyTransaction_ctor_payload:
  assumes "length payload = 9"
    and "length (payload ! 3) = 0 \<or> length (payload ! 3) = 20"
    and "recoverSender ext (Quantity_from_buffer (payload ! 6)) ([] # payload) (chainId cmn)
           = Some sender"
  shows "LegacyTransaction_ctor ext (DatabasePayload payload) cmn =
     Inr ((super_ctor ext (DatabasePayload payload) cmn)\<lparr>
            tx_type := 0,
            common := cmn,
            nonce := Quantity_from_buffer (payload ! 0),
            gasPrice := Quantity_from_buffer (payload ! 1),
            gas := Quantity_from_buffer (payload ! 2),
            tx_to := (if payload ! 3 = [] then RPCQUANTITY_EMPTY else Address (payload ! 3)),
            tx_value := Quantity_from_buffer (payload ! 4),
            tx_data := Data_from (payload ! 5),
            tx_v := Some (Quantity_from_buffer (payload ! 6)),
            tx_r := Some (Quantity_from_buffer (payload ! 7)),
            tx_s := Some (Quantity_from_buffer (payload ! 8)),
            raw := Some ([] # payload),
            tx_from := Some sender,
            serialized := Some (rlp_encode_list payload),
            hash := Some (Data_from (keccak ext (rlp_encode_list payload))),
            encodedData := Some (encodeRange ([] # payload) 1 6),
            encodedSignature := Some (encodeRange ([] # payload) 7 3)\<rparr>)"
proof -
  have t0: "Quantity_toBuffer 0 = []"
    by (simp add: Quantity_toBuffer_def toBufferBE_0)
  have sl: "slice_list (Suc 0) 10 ([] # payload) = payload"
    using assms(1) by (simp add: slice_list_def)
  have tf: "(if length (payload ! 3) = 0 then Inr RPCQUANTITY_EMPTY
             else Address_from (payload ! 3))
            = Inr (if payload ! 3 = [] then RPCQUANTITY_EMPTY else Address (payload ! 3))"
    using assms(2) by (cases "payload ! 3 = []") (auto simp: Address_from_def)
  show ?thesis
    using assms(1,3) tf
    by (simp add: LegacyTransaction_ctor_def Let_def t0 sl computeIntrinsics_def
        computeInstrinsicsLegacyTx_def Quantity_from_number_def)
qed

lemma example_payload_valid:
  "length example_payload = 9"
  "length (example_payload ! 3) = 0 \<or> length (example_payload ! 3) = 20"
  "recoverSender example_ext (Quantity_from_buffer (example_payload ! 6))
     ([] # example_payload) (chainId \<lparr>chainId = 1\<rparr>) = Some (replicate 20 0x22)"
  by (simp_all add: example_payload_def example_ext_def Quantity_from_buffer_def
      fromBufferBE_def)

section \<open>Wire decoding\<close>

text \<open>
  An input whose first byte is present and classified as Legacy reaches \<open>decode\<close> whole:
  the guard \<open>type === undefined\<close> is false for it, so nothing is sliced off. This covers
  the first bytes from 0xC0 upwards and the first byte 0x00 alike.
\<close>

lemma fromString_first_byte_present:
  "typeOf (Some (uint b)) = Some Legacy \<Longrightarrow>
   fromString ext (b # rest) cmn =
     (case decode ext (b # rest) of
        Inl e \<Rightarrow> Inl e
      | Inr rawp \<Rightarrow>
          map_sum id LegacyTx (LegacyTransaction_fromTxData ext (DatabasePayload rawp) cmn))"
  by (simp add: fromString_def Let_def first_byte_def)

text \<open>
  C1. The claim has \<open>fromString\<close> strip exactly the leading byte when that byte is the
  literal type byte 0x00, and strip nothing when the first byte is 0xC0 or more. The
  source does the second and not the first. On the eleven bytes
  \<open>00 c9 80 80 80 80 80 80 80 80 80\<close>, the type byte 0x00 followed by the RLP list of
  nine empty fields, \<open>data[0]\<close> is the number 0, the guard \<open>type === undefined\<close> fails, and
  \<open>decode\<close> is applied to all eleven bytes, the type byte included.
\<close>

theorem fromString_keeps_explicit_zero_type_byte:
  "fromString ext [0x00, 0xC9, 0x80, 0x80, 0x80, 0x80, 0x80, 0x80, 0x80, 0x80, 0x80] cmn =
     (case decode ext [0x00, 0xC9, 0x80, 0x80, 0x80, 0x80, 0x80, 0x80, 0x80, 0x80, 0x80] of
        Inl e \<Rightarrow> Inl e
      | Inr rawp \<Rightarrow>
          map_sum id LegacyTx (LegacyTransaction_fromTxData ext (DatabasePayload rawp) cmn))"
  by (simp add: fromString_def Let_def first_byte_def typeOf_def LEGACY_TX_TYPE_ID_def
      UNTYPED_TX_START_BYTE_def)

section \<open>Classification of a type byte\<close>

text \<open>
  C2. The classifier sends an absent byte, the byte 0x00 and every byte from 0xC0 upwards
  to Legacy, the byte 0x01 to AccessList, and every other byte to no variant at all.
\<close>

theorem typeOf_classifies_bytes:
  "typeOf None = Some Legacy
   \<and> typeOf (Some 0x00) = Some Legacy
   \<and> typeOf (Some 0x01) = Some AccessList
   \<and> (\<forall>b. 0xC0 \<le> b \<longrightarrow> typeOf (Some b) = Some Legacy)
   \<and> (\<forall>b. b \<noteq> 0x00 \<and> b \<noteq> 0x01 \<and> b < 0xC0 \<longrightarrow> typeOf (Some b) = None)"
  by (simp add: typeOf_def UNTYPED_TX_START_BYTE_def LEGACY_TX_TYPE_ID_def
      ACCESS_LIST_TX_TYPE_ID_def)

theorem typeOf_classifies_bytes_witness:
  "(0xC0::int) \<le> 0xF8 \<and> typeOf (Some 0xF8) = Some Legacy
   \<and> (0x02::int) \<noteq> 0x00 \<and> (0x02::int) \<noteq> 0x01 \<and> (0x02::int) < 0xC0
   \<and> typeOf (Some 0x02) = None"
  using typeOf_classifies_bytes by simp

section \<open>Signing\<close>

text \<open>
  C3. On an instance whose \<open>v\<close> is set, \<open>signAndHash\<close> fails with the already-signed
  error and returns no signed instance. On an instance without \<open>v\<close> it does not take
  that branch: it returns an instance with \<open>v\<close> set, and a further call on that instance,
  with any key, fails with the already-signed error.
\<close>

theorem signAndHash_once:
  "(tx_v this \<noteq> None \<longrightarrow> signAndHash ext privateKey this = Inl AlreadySignedError)
   \<and> (tx_v this = None \<longrightarrow>
        (\<exists>this'. signAndHash ext privateKey this = Inr this' \<and> tx_v this' \<noteq> None
           \<and> signAndHash ext privateKey' this' = Inl AlreadySignedError))"
proof (intro conjI impI)
  assume "tx_v this \<noteq> None"
  then show "signAndHash ext privateKey this = Inl AlreadySignedError"
    by (simp add: signAndHash_def)
next
  assume "tx_v this = None"
  then obtain this' where r: "signAndHash ext privateKey this = Inr this'"
    and v: "tx_v this' \<noteq> None"
    by (simp add: signAndHash_unsigned Let_def)
  from v have "signAndHash ext privateKey' this' = Inl AlreadySignedError"
    by (simp add: signAndHash_def)
  with r v show "\<exists>this'. signAndHash ext privateKey this = Inr this' \<and> tx_v this' \<noteq> None
           \<and> signAndHash ext privateKey' this' = Inl AlreadySignedError"
    by blast
qed

theorem signAndHash_once_witness:
  "tx_v (example_unsigned\<lparr>tx_v := Some 37\<rparr>) \<noteq> None
   \<and> signAndHash example_ext [1] (example_unsigned\<lparr>tx_v := Some 37\<rparr>) = Inl AlreadySignedError
   \<and> tx_v example_unsigned = None
   \<and> (\<exists>this'. signAndHash example_ext [1] example_unsigned = Inr this' \<and> tx_v this' \<noteq> None
           \<and> signAndHash example_ext [2] this' = Inl AlreadySignedError)"
  using signAndHash_once [of "example_unsigned\<lparr>tx_v := Some 37\<rparr>" example_ext "[1]"]
        signAndHash_once [of example_unsigned example_ext "[1]" "[2]"]
  by (simp add: example_unsigned_def)

text \<open>
  C4. On an unsigned instance \<open>signAndHash\<close> returns, and the signature it stores is the
  one \<open>ecsign\<close> gives for the keccak hash of the RLP list of nine fields: the raw array
  has the ten slots type, nonce, gasPrice, gas, to, value, data, chain id, empty, empty,
  and the list that is encoded is that array without its first slot.
\<close>

theorem signAndHash_signing_hash:
  assumes "tx_v this = None"
  shows "\<exists>this'. signAndHash ext privateKey this = Inr this' \<and>
     (let cid = chainId (common this);
          raw0 = toEthRawTransaction this (Quantity_toBuffer (Quantity_from_number cid))
                   BUFFER_EMPTY BUFFER_EMPTY;
          msgHash = keccak ext (rlp_encode_list (tl raw0));
          sig = ecsign ext msgHash privateKey cid
      in raw0 = [Quantity_toBuffer (tx_type this), Quantity_toBuffer (nonce this),
                 Quantity_toBuffer (gasPrice this), Quantity_toBuffer (gas this),
                 recipient_toBuffer (tx_to this), Quantity_toBuffer (tx_value this),
                 Data_toBuffer (tx_data this), Quantity_toBuffer (Quantity_from_number cid),
                 [], []]
         \<and> length (tl raw0) = 9
         \<and> tx_v this' = Some (Quantity_from_number (sig_v sig))
         \<and> tx_r this' = Some (Quantity_from_buffer (sig_r sig))
         \<and> tx_s this' = Some (Quantity_from_buffer (sig_s sig)))"
  using assms
  by (simp add: signAndHash_unsigned Let_def toEthRawTransaction_def BUFFER_EMPTY_def)

theorem signAndHash_signing_hash_witness:
  "tx_v example_unsigned = None \<and>
   (\<exists>this'. signAndHash example_ext [1] example_unsigned = Inr this' \<and>
     (let cid = chainId (common example_unsigned);
          raw0 = toEthRawTransaction example_unsigned
                   (Quantity_toBuffer (Quantity_from_number cid)) BUFFER_EMPTY BUFFER_EMPTY;
          msgHash = keccak example_ext (rlp_encode_list (tl raw0));
          sig = ecsign example_ext msgHash [1] cid
      in raw0 = [Quantity_toBuffer (tx_type example_unsigned),
                 Quantity_toBuffer (nonce example_unsigned),
                 Quantity_toBuffer (gasPrice example_unsigned),
                 Quantity_toBuffer (gas example_unsigned),
                 recipient_toBuffer (tx_to example_unsigned),
                 Quantity_toBuffer (tx_value example_unsigned),
                 Data_toBuffer (tx_data example_unsigned),
                 Quantity_toBuffer (Quantity_from_number cid),
                 [], []]
         \<and> length (tl raw0) = 9
         \<and> tx_v this' = Some (Quantity_from_number (sig_v sig))
         \<and> tx_r this' = Some (Quantity_from_buffer (sig_r sig))
         \<and> tx_s this' = Some (Quantity_from_buffer (sig_s sig))))"
proof -
  have h: "tx_v example_unsigned = None"
    by (simp add: example_unsigned_def)
  show ?thesis
    using h signAndHash_signing_hash [OF h, of example_ext "[1]"] by simp
qed

text \<open>
  C5. After \<open>signAndHash\<close> on an unsigned instance, the stored serialized bytes are the
  digest of the cached encoding of the six unsigned fields with the encoding of the
  stored (v, r, s), which is the RLP list of those nine fields, and the stored hash is
  the keccak hash of exactly these serialized bytes.
\<close>

theorem signAndHash_serialized_and_hash:
  assumes "tx_v this = None"
  shows "\<exists>this' data sigPart ser v' r' s'.
     signAndHash ext privateKey this = Inr this'
     \<and> encodedData this' = Some data
     \<and> encodedSignature this' = Some sigPart
     \<and> serialized this' = Some ser
     \<and> tx_v this' = Some v' \<and> tx_r this' = Some r' \<and> tx_s this' = Some s'
     \<and> enc_output data =
           map encode [Quantity_toBuffer (nonce this), Quantity_toBuffer (gasPrice this),
                       Quantity_toBuffer (gas this), recipient_toBuffer (tx_to this),
                       Quantity_toBuffer (tx_value this), Data_toBuffer (tx_data this)]
     \<and> enc_output sigPart =
           map encode [Quantity_toBuffer v', Quantity_toBuffer r', Quantity_toBuffer s']
     \<and> ser = digest [enc_output data, enc_output sigPart] (enc_length data + enc_length sigPart)
     \<and> ser = rlp_encode_list
                 [Quantity_toBuffer (nonce this), Quantity_toBuffer (gasPrice this),
                  Quantity_toBuffer (gas this), recipient_toBuffer (tx_to this),
                  Quantity_toBuffer (tx_value this), Data_toBuffer (tx_data this),
                  Quantity_toBuffer v', Quantity_toBuffer r', Quantity_toBuffer s']
     \<and> hash this' = Some (Data_from (keccak ext ser))"
proof -
  define cid where "cid = chainId (common this)"
  define fields where
    "fields = [Quantity_toBuffer (nonce this), Quantity_toBuffer (gasPrice this),
               Quantity_toBuffer (gas this), recipient_toBuffer (tx_to this),
               Quantity_toBuffer (tx_value this), Data_toBuffer (tx_data this)]"
  define sig where
    "sig = ecsign ext
             (keccak ext (rlp_encode_list
                (fields @ [Quantity_toBuffer (Quantity_from_number cid),
                           BUFFER_EMPTY, BUFFER_EMPTY])))
             privateKey cid"
  define v' where "v' = Quantity_from_number (sig_v sig)"
  define r' where "r' = Quantity_from_buffer (sig_r sig)"
  define s' where "s' = Quantity_from_buffer (sig_s sig)"
  define sigfields where
    "sigfields = [Quantity_toBuffer v', Quantity_toBuffer r', Quantity_toBuffer s']"
  define data where "data = encodeRange (Quantity_toBuffer (tx_type this) # fields) 1 6"
  define sigPart where "sigPart = encodeRange sigfields 0 3"
  define ser where "ser = rlp_encode_list (fields @ sigfields)"
  define this' where
    "this' = this\<lparr>tx_v := Some v', tx_r := Some r', tx_s := Some s',
               raw := Some (Quantity_toBuffer (tx_type this) # fields @ sigfields),
               serialized := Some ser,
               hash := Some (Data_from (keccak ext ser)),
               encodedData := Some data,
               encodedSignature := Some sigPart\<rparr>"
  have res: "signAndHash ext privateKey this = Inr this'"
    unfolding this'_def ser_def sigPart_def data_def sigfields_def s'_def r'_def v'_def
      sig_def fields_def cid_def
    using assms by (simp add: signAndHash_unsigned Let_def)
  have d: "enc_output data = map encode fields"
    by (simp add: data_def fields_def encodeRange_def slice_list_def)
  have s: "enc_output sigPart = map encode sigfields"
    by (simp add: sigPart_def sigfields_def encodeRange_def slice_list_def)
  have sl: "slice_list 1 (1 + 6) (Quantity_toBuffer (tx_type this) # fields) = fields"
    "slice_list 0 (0 + 3) sigfields = sigfields"
    by (simp_all add: fields_def sigfields_def slice_list_def)
  have dg: "ser = digest [enc_output data, enc_output sigPart]
                    (enc_length data + enc_length sigPart)"
    unfolding data_def sigPart_def ser_def digest_encodeRange sl ..
  have proj: "encodedData this' = Some data" "encodedSignature this' = Some sigPart"
    "serialized this' = Some ser" "tx_v this' = Some v'" "tx_r this' = Some r'"
    "tx_s this' = Some s'" "hash this' = Some (Data_from (keccak ext ser))"
    by (simp_all add: this'_def)
  have full: "ser = rlp_encode_list
                 [Quantity_toBuffer (nonce this), Quantity_toBuffer (gasPrice this),
                  Quantity_toBuffer (gas this), recipient_toBuffer (tx_to this),
                  Quantity_toBuffer (tx_value this), Data_toBuffer (tx_data this),
                  Quantity_toBuffer v', Quantity_toBuffer r', Quantity_toBuffer s']"
    by (simp add: ser_def fields_def sigfields_def)
  from res proj d s dg full show ?thesis
    unfolding fields_def sigfields_def by blast
qed

theorem signAndHash_serialized_and_hash_witness:
  "tx_v example_unsigned = None \<and>
   (\<exists>this' data sigPart ser v' r' s'.
     signAndHash example_ext [1] example_unsigned = Inr this'
     \<and> encodedData this' = Some data
     \<and> encodedSignature this' = Some sigPart
     \<and> serialized this' = Some ser
     \<and> tx_v this' = Some v' \<and> tx_r this' = Some r' \<and> tx_s this' = Some s'
     \<and> enc_output sigPart =
           map encode [Quantity_toBuffer v', Quantity_toBuffer r', Quantity_toBuffer s']
     \<and> ser = digest [enc_output data, enc_output sigPart] (enc_length data + enc_length sigPart)
     \<and> hash this' = Some (Data_from (keccak example_ext ser)))"
proof -
  have h: "tx_v example_unsigned = None"
    by (simp add: example_unsigned_def)
  show ?thesis
    using h signAndHash_serialized_and_hash [OF h, of example_ext "[1]"] by blast
qed

section \<open>Signed construction\<close>

text \<open>
  C6. For a payload of nine fields whose recipient slot is empty or 20 bytes long and
  whose signature recovers a sender, the constructor returns a signed instance, and its
  serialized bytes are the RLP encoding of the nine fields of the payload, byte for byte.
\<close>

theorem LegacyTransaction_roundtrip:
  assumes "length payload = 9"
    and "length (payload ! 3) = 0 \<or> length (payload ! 3) = 20"
    and "recoverSender ext (Quantity_from_buffer (payload ! 6)) ([] # payload) (chainId cmn)
           = Some sender"
  shows "\<exists>tx. LegacyTransaction_fromTxData ext (DatabasePayload payload) cmn = Inr tx
           \<and> serialized tx = Some (rlp_encode_list payload)"
  using assms
  by (simp add: LegacyTransaction_fromTxData_def LegacyTransaction_ctor_payload)

theorem LegacyTransaction_roundtrip_witness:
  "length example_payload = 9
   \<and> (length (example_payload ! 3) = 0 \<or> length (example_payload ! 3) = 20)
   \<and> recoverSender example_ext (Quantity_from_buffer (example_payload ! 6))
        ([] # example_payload) (chainId \<lparr>chainId = 1\<rparr>) = Some (replicate 20 0x22)
   \<and> (\<exists>tx. LegacyTransaction_fromTxData example_ext (DatabasePayload example_payload)
               \<lparr>chainId = 1\<rparr> = Inr tx
           \<and> serialized tx = Some (rlp_encode_list example_payload))"
  using example_payload_valid
    LegacyTransaction_roundtrip [OF example_payload_valid]
  by blast

section \<open>Execution view\<close>



text \<open>
  C8. On an instance with a sender the view exists, and its capability query answers
  false for every capability.
\<close>

theorem supports_always_false:
  assumes "tx_from this = Some sender"
  shows "\<exists>vm :: 'c VmTransaction. toVmTransaction ext this = Inr vm
           \<and> (\<forall>capability. supports vm capability = False)"
  using assms by (simp add: toVmTransaction_def Let_def)

theorem supports_always_false_witness:
  "tx_from example_unsigned = Some (replicate 20 0x22)
   \<and> (\<exists>vm :: string VmTransaction. toVmTransaction example_ext example_unsigned = Inr vm
           \<and> (\<forall>capability. supports vm capability = False))"
proof -
  have h: "tx_from example_unsigned = Some (replicate 20 0x22)"
    by (simp add: example_unsigned_def)
  show ?thesis
    using h supports_always_false [OF h, of example_ext, where 'c = string] by blast
qed

text \<open>
  C10. On an instance with a sender, signed or not, the view exists and its hash
  accessor gives the constant buffer of 32 zero bytes, whatever hash the instance holds.
\<close>

theorem vm_hash_is_zero_buffer:
  assumes "tx_from this = Some sender"
  shows "\<exists>vm :: 'c VmTransaction. toVmTransaction ext this = Inr vm
           \<and> vm_hash vm = BUFFER_32_ZERO \<and> vm_hash vm = replicate 32 0"
  using assms by (simp add: toVmTransaction_def Let_def BUFFER_32_ZERO_def)

theorem vm_hash_is_zero_buffer_witness:
  "tx_from example_unsigned = Some (replicate 20 0x22)
   \<and> (\<exists>vm :: unit VmTransaction. toVmTransaction example_ext example_unsigned = Inr vm
           \<and> vm_hash vm = BUFFER_32_ZERO \<and> vm_hash vm = replicate 32 0)"
proof -
  have h: "tx_from example_unsigned = Some (replicate 20 0x22)"
    by (simp add: example_unsigned_def)
  show ?thesis
    using h vm_hash_is_zero_buffer [OF h, of example_ext, where 'c = unit] by blast
qed

section \<open>Database records\<close>

text \<open>
  C9. \<open>fromDatabaseTx\<close> classifies a record by the first byte of its first element and
  hands the elements after the first to the constructor of the variant found: a first
  byte 0x00 or from 0xC0 upwards builds the legacy variant from the remaining elements,
  a first byte 0x01 builds the access-list variant from them, and any other first byte
  is refused with that byte in the error. When the first element is the empty byte
  string there is no first byte, the record is classified as Legacy, and a valid record
  of the empty marker followed by nine fields yields a legacy instance whose fields are
  read from those nine.
\<close>

theorem fromDatabaseTx_dispatch:
  "(b = 0x00 \<or> 0xC0 \<le> uint b \<longrightarrow>
      fromDatabaseTx ext ((b # bs) # rest) cmn =
        map_sum id LegacyTx (LegacyTransaction_fromTxData ext (DatabasePayload rest) cmn))
   \<and> (b = 0x01 \<longrightarrow>
      fromDatabaseTx ext ((b # bs) # rest) cmn =
        map_sum id AccessListTx (EIP2930_fromTxData ext rest cmn))
   \<and> (b \<noteq> 0x00 \<and> b \<noteq> 0x01 \<and> uint b < 0xC0 \<longrightarrow>
      fromDatabaseTx ext ((b # bs) # rest) cmn =
        Inl (UnsupportedTransactionType (Some (uint b))))
   \<and> fromDatabaseTx ext ([] # rest) cmn =
       map_sum id LegacyTx (LegacyTransaction_fromTxData ext (DatabasePayload rest) cmn)
   \<and> (length rest = 9 \<and> (length (rest ! 3) = 0 \<or> length (rest ! 3) = 20)
        \<and> recoverSender ext (Quantity_from_buffer (rest ! 6)) ([] # rest) (chainId cmn)
            = Some sender
      \<longrightarrow> (\<exists>tx. fromDatabaseTx ext ([] # rest) cmn = Inr (LegacyTx tx)
             \<and> raw tx = Some ([] # rest)
             \<and> nonce tx = Quantity_from_buffer (rest ! 0)
             \<and> gasPrice tx = Quantity_from_buffer (rest ! 1)
             \<and> gas tx = Quantity_from_buffer (rest ! 2)
             \<and> recipient_toBuffer (tx_to tx) = rest ! 3
             \<and> tx_value tx = Quantity_from_buffer (rest ! 4)
             \<and> tx_data tx = Data_from (rest ! 5)
             \<and> tx_v tx = Some (Quantity_from_buffer (rest ! 6))
             \<and> tx_r tx = Some (Quantity_from_buffer (rest ! 7))
             \<and> tx_s tx = Some (Quantity_from_buffer (rest ! 8))))"
proof (intro conjI impI)
  have d: "fromDatabaseTx ext (t0 # rest) cmn =
     (case typeOf (first_byte t0) of
        Some Legacy \<Rightarrow>
          map_sum id LegacyTx (LegacyTransaction_fromTxData ext (DatabasePayload rest) cmn)
      | Some AccessList \<Rightarrow> map_sum id AccessListTx (EIP2930_fromTxData ext rest cmn)
      | None \<Rightarrow> Inl (UnsupportedTransactionType (first_byte t0)))" for t0
    using slice_tail [of t0 rest]
    by (simp add: fromDatabaseTx_def Let_def split: option.splits variant.splits)
  have fb: "first_byte (b # bs) = Some (uint b)"
    by (simp add: first_byte_def)
  have one: "uint b = 1 \<longleftrightarrow> b = 1"
    using word_uint_eq_iff [of b 1] by simp
  have zero: "uint b = 0 \<longleftrightarrow> b = 0"
    using word_uint_eq_iff [of b 0] by simp
  {
    assume "b = 0x00 \<or> 0xC0 \<le> uint b"
    then have "typeOf (Some (uint b)) = Some Legacy"
      by (auto simp: typeOf_def UNTYPED_TX_START_BYTE_def LEGACY_TX_TYPE_ID_def)
    then show "fromDatabaseTx ext ((b # bs) # rest) cmn =
        map_sum id LegacyTx (LegacyTransaction_fromTxData ext (DatabasePayload rest) cmn)"
      by (simp add: d fb)
  }
  {
    assume "b = 0x01"
    then have "typeOf (Some (uint b)) = Some AccessList"
      by (simp add: typeOf_def UNTYPED_TX_START_BYTE_def LEGACY_TX_TYPE_ID_def
          ACCESS_LIST_TX_TYPE_ID_def)
    then show "fromDatabaseTx ext ((b # bs) # rest) cmn =
        map_sum id AccessListTx (EIP2930_fromTxData ext rest cmn)"
      by (simp add: d fb)
  }
  {
    assume "b \<noteq> 0x00 \<and> b \<noteq> 0x01 \<and> uint b < 0xC0"
    then have "typeOf (Some (uint b)) = None"
      by (simp add: typeOf_def UNTYPED_TX_START_BYTE_def LEGACY_TX_TYPE_ID_def
          ACCESS_LIST_TX_TYPE_ID_def one zero)
    then show "fromDatabaseTx ext ((b # bs) # rest) cmn =
        Inl (UnsupportedTransactionType (Some (uint b)))"
      by (simp add: d fb)
  }
  show e: "fromDatabaseTx ext ([] # rest) cmn =
       map_sum id LegacyTx (LegacyTransaction_fromTxData ext (DatabasePayload rest) cmn)"
    using d [of "[]"] by (simp add: first_byte_def typeOf_def)
  assume h: "length rest = 9 \<and> (length (rest ! 3) = 0 \<or> length (rest ! 3) = 20)
        \<and> recoverSender ext (Quantity_from_buffer (rest ! 6)) ([] # rest) (chainId cmn)
            = Some sender"
  show "\<exists>tx. fromDatabaseTx ext ([] # rest) cmn = Inr (LegacyTx tx)
             \<and> raw tx = Some ([] # rest)
             \<and> nonce tx = Quantity_from_buffer (rest ! 0)
             \<and> gasPrice tx = Quantity_from_buffer (rest ! 1)
             \<and> gas tx = Quantity_from_buffer (rest ! 2)
             \<and> recipient_toBuffer (tx_to tx) = rest ! 3
             \<and> tx_value tx = Quantity_from_buffer (rest ! 4)
             \<and> tx_data tx = Data_from (rest ! 5)
             \<and> tx_v tx = Some (Quantity_from_buffer (rest ! 6))
             \<and> tx_r tx = Some (Quantity_from_buffer (rest ! 7))
             \<and> tx_s tx = Some (Quantity_from_buffer (rest ! 8))"
    using h
    by (simp add: e LegacyTransaction_fromTxData_def
        LegacyTransaction_ctor_payload [of rest ext cmn sender])
qed

theorem fromDatabaseTx_dispatch_witness:
  "fromDatabaseTx example_ext ([0xF8, 0x01] # example_payload) \<lparr>chainId = 1\<rparr> =
     map_sum id LegacyTx
       (LegacyTransaction_fromTxData example_ext (DatabasePayload example_payload)
          \<lparr>chainId = 1\<rparr>)
   \<and> fromDatabaseTx example_ext ([0x01] # example_payload) \<lparr>chainId = 1\<rparr> =
       map_sum id AccessListTx
         (EIP2930_fromTxData example_ext example_payload \<lparr>chainId = 1\<rparr>)
   \<and> fromDatabaseTx example_ext ([0x02] # example_payload) \<lparr>chainId = 1\<rparr> =
       Inl (UnsupportedTransactionType (Some 2))
   \<and> length example_payload = 9
   \<and> (length (example_payload ! 3) = 0 \<or> length (example_payload ! 3) = 20)
   \<and> recoverSender example_ext (Quantity_from_buffer (example_payload ! 6))
        ([] # example_payload) (chainId \<lparr>chainId = 1\<rparr>) = Some (replicate 20 0x22)
   \<and> (\<exists>tx. fromDatabaseTx example_ext ([] # example_payload) \<lparr>chainId = 1\<rparr>
               = Inr (LegacyTx tx)
           \<and> raw tx = Some ([] # example_payload)
           \<and> nonce tx = Quantity_from_buffer (example_payload ! 0)
           \<and> tx_s tx = Some (Quantity_from_buffer (example_payload ! 8)))"
proof -
  have legacy: "fromDatabaseTx example_ext ([0xF8, 0x01] # example_payload) \<lparr>chainId = 1\<rparr> =
     map_sum id LegacyTx
       (LegacyTransaction_fromTxData example_ext (DatabasePayload example_payload)
          \<lparr>chainId = 1\<rparr>)"
    using fromDatabaseTx_dispatch [of "0xF8" example_ext "[0x01]" example_payload
        "\<lparr>chainId = 1\<rparr>" "replicate 20 0x22"]
    by simp
  have access: "fromDatabaseTx example_ext ([0x01] # example_payload) \<lparr>chainId = 1\<rparr> =
       map_sum id AccessListTx
         (EIP2930_fromTxData example_ext example_payload \<lparr>chainId = 1\<rparr>)"
    using fromDatabaseTx_dispatch [of "0x01" example_ext "[]" example_payload
        "\<lparr>chainId = 1\<rparr>" "replicate 20 0x22"]
    by simp
  have other: "fromDatabaseTx example_ext ([0x02] # example_payload) \<lparr>chainId = 1\<rparr> =
       Inl (UnsupportedTransactionType (Some 2))"
    using fromDatabaseTx_dispatch [of "0x02" example_ext "[]" example_payload
        "\<lparr>chainId = 1\<rparr>" "replicate 20 0x22"]
    by simp
  have empty: "\<exists>tx. fromDatabaseTx example_ext ([] # example_payload) \<lparr>chainId = 1\<rparr>
               = Inr (LegacyTx tx)
           \<and> raw tx = Some ([] # example_payload)
           \<and> nonce tx = Quantity_from_buffer (example_payload ! 0)
           \<and> tx_s tx = Some (Quantity_from_buffer (example_payload ! 8))"
    using example_payload_valid
      fromDatabaseTx_dispatch [of "0x00" example_ext "[]" example_payload "\<lparr>chainId = 1\<rparr>"
        "replicate 20 0x22"]
    by blast
  from legacy access other empty example_payload_valid show ?thesis
    by blast
qed

end
